theory Spec2Isabelle
  imports Main "HOL-Library.Word"
begin

section \<open>What the three programs share\<close>

text \<open>
  The repository holds three stand-alone Go programs, each a \<^verbatim>\<open>package main\<close> of its own
  with the same names \<^verbatim>\<open>Int\<close>, \<^verbatim>\<open>Sum\<close>, \<^verbatim>\<open>Summable\<close>, \<^verbatim>\<open>nbOps\<close> and \<^verbatim>\<open>main\<close>:
  \<^item> variant A, \<^verbatim>\<open>concrete_vs_interface.go\<close>: value receiver, \<^verbatim>\<open>Sum\<close> returns the new value;
  \<^item> variant B, the pointer program: pointer receiver, \<^verbatim>\<open>Sum\<close> returns the receiver;
  \<^item> variant C, \<^verbatim>\<open>concrete_vs_interface_pointers_inplace.go\<close>: pointer receiver, no result.
  Since the three packages would clash in one theory, every name carries the letter of its
  variant as a suffix.
\<close>

text \<open>\<^verbatim>\<open>type Int int64\<close>: a 64-bit two's complement integer whose \<^verbatim>\<open>+\<close> wraps around.
  The type is called \<open>Int64\<close> here, \<open>Int\<close> being the ASCII notation of set intersection.\<close>

type_synonym Int64 = "64 word"

text \<open>Go's \<^verbatim>\<open>int\<close>, the type of the loop index and of \<^verbatim>\<open>nbOps\<close>, on the 64-bit target
  (amd64) that the repository's measurements were taken on.\<close>

type_synonym go_int = "64 word"

text \<open>\<^verbatim>\<open>const nbOps int = 1e8\<close>\<close>

definition nbOps :: go_int where
  "nbOps = 100000000"

text \<open>The only run-time panic these programs can raise: a method call through a nil
  interface value, or \<^verbatim>\<open>*i\<close> on a nil pointer.\<close>

datatype panic = NilDereference

subsection \<open>The counting loop\<close>

text \<open>
  \<^verbatim>\<open>for i := 0; i < nbOps; i++ { body }\<close> with the index \<open>i\<close> a signed 64-bit integer
  compared by the signed order. The body does not read \<open>i\<close>; it transforms the rest of the
  state and may panic, which leaves the loop at once.
\<close>

function for_loop :: "go_int \<Rightarrow> go_int \<Rightarrow> ('s \<Rightarrow> panic + 's) \<Rightarrow> 's \<Rightarrow> panic + 's" where
  "for_loop i n body s =
     (if i <s n
      then (case body s of Inl e \<Rightarrow> Inl e | Inr s' \<Rightarrow> for_loop (i + 1) n body s')
      else Inr s)"
  by pat_completeness auto

termination for_loop
proof (relation "measure (\<lambda>(i, n, body, s). nat (sint n - sint i))")
  show "wf (measure (\<lambda>(i, n, body, s). nat (sint n - sint i)))"
    by simp
next
  fix i n :: go_int and body :: "'s \<Rightarrow> panic + 's" and s s' :: 's
  assume "i <s n"
  then have less: "sint i < sint n"
    by (simp add: word_sless_alt)
  have "sint n < 2 ^ 63" and "- (2 ^ 63) \<le> sint i"
    using sint_lt [of n] sint_ge [of i] by simp_all
  with less have "signed_take_bit 63 (sint i + 1) = sint i + 1"
    by (intro signed_take_bit_int_eq_self) simp_all
  then have "sint (i + 1) = sint i + 1"
    by (simp add: sint_word_add)
  with less show "((i + 1, n, body, s'), (i, n, body, s))
               \<in> measure (\<lambda>(i, n, body, s). nat (sint n - sint i))"
    by simp
qed

declare for_loop.simps [simp del]

section \<open>Variant A: value receiver\<close>

text \<open>\<^verbatim>\<open>func (i Int) Sum(i2 Int) Int { return i + i2 }\<close>\<close>

definition Sum_A :: "Int64 \<Rightarrow> Int64 \<Rightarrow> Int64" where
  "Sum_A i i2 = i + i2"

text \<open>
  \<^verbatim>\<open>type Summable interface { Sum(i Int) Int }\<close>. A value of the interface type is nil or a
  boxed value of a dynamic type with the method; \<^verbatim>\<open>Int\<close> is the only such type of the
  program.
\<close>

datatype Summable_A = nil_A | Int_A Int64

text \<open>A call through the interface: the method of the dynamic type, a panic on nil.\<close>

definition Summable_Sum_A :: "Summable_A \<Rightarrow> Int64 \<Rightarrow> panic + Int64" where
  "Summable_Sum_A x i2 = (case x of nil_A \<Rightarrow> Inl NilDereference | Int_A v \<Rightarrow> Inr (Sum_A v i2))"

text \<open>\<^verbatim>\<open>for i := 0; i < nbOps; i++ { iConcrete = iConcrete.Sum(Int(10)) }\<close>,
  with the bound and the increment as parameters.\<close>

definition concrete_loop_A :: "go_int \<Rightarrow> Int64 \<Rightarrow> Int64 \<Rightarrow> panic + Int64" where
  "concrete_loop_A N k iConcrete =
     for_loop 0 N (\<lambda>iConcrete. Inr (Sum_A iConcrete k)) iConcrete"

text \<open>\<^verbatim>\<open>for i := 0; i < nbOps; i++ { iInterface = iInterface.Sum(Int(10)) }\<close>: the
  \<^verbatim>\<open>Int\<close> that the call returns is converted to \<^verbatim>\<open>Summable\<close> by the assignment.\<close>

definition interface_loop_A :: "go_int \<Rightarrow> Int64 \<Rightarrow> Summable_A \<Rightarrow> panic + Summable_A" where
  "interface_loop_A N k iInterface =
     for_loop 0 N
       (\<lambda>iInterface. case Summable_Sum_A iInterface k of
                        Inl e \<Rightarrow> Inl e
                      | Inr v \<Rightarrow> Inr (Int_A v))
       iInterface"

section \<open>Memory for the pointer variants\<close>

text \<open>
  Variants B and C take the address of a local variable and mutate it through two handles,
  so the cells of type \<^verbatim>\<open>Int\<close> live in an explicit store. An address is a natural number,
  a pointer \<^verbatim>\<open>*Int\<close> is nil (\<open>None\<close>) or an address, and \<open>next_free\<close> is the first address
  never handed out. Go has no dangling pointers: every address reads and writes.
\<close>

type_synonym addr = nat

type_synonym ptr = "addr option"

record heap =
  cells :: "addr \<Rightarrow> Int64"
  next_free :: addr

text \<open>\<^verbatim>\<open>var zero Int\<close> with its address taken: a fresh cell holding the zero value.\<close>

definition new_Int :: "heap \<Rightarrow> addr \<times> heap" where
  "new_Int h = (next_free h, h\<lparr>cells := (cells h)(next_free h := 0), next_free := Suc (next_free h)\<rparr>)"

text \<open>\<^verbatim>\<open>*i += i2\<close> for a pointer \<open>i\<close> that holds the address \<open>a\<close>.\<close>

definition add_assign :: "addr \<Rightarrow> Int64 \<Rightarrow> heap \<Rightarrow> heap" where
  "add_assign a i2 h = h\<lparr>cells := (cells h)(a := cells h a + i2)\<rparr>"

section \<open>Variant B: pointer receiver that returns the pointer\<close>

text \<open>\<^verbatim>\<open>func (i *Int) Sum(i2 Int) *Int { *i += i2; return i }\<close>\<close>

definition Sum_B :: "ptr \<Rightarrow> Int64 \<Rightarrow> heap \<Rightarrow> panic + (ptr \<times> heap)" where
  "Sum_B i i2 h =
     (case i of
        None \<Rightarrow> Inl NilDereference
      | Some a \<Rightarrow> Inr (i, add_assign a i2 h))"

text \<open>\<^verbatim>\<open>type Summable interface { Sum(i Int) *Int }\<close>, implemented by \<^verbatim>\<open>*Int\<close> only. An
  interface value that boxes a nil \<^verbatim>\<open>*Int\<close> is not the nil interface.\<close>

datatype Summable_B = nil_B | PtrInt_B ptr

definition Summable_Sum_B :: "Summable_B \<Rightarrow> Int64 \<Rightarrow> heap \<Rightarrow> panic + (ptr \<times> heap)" where
  "Summable_Sum_B x i2 h = (case x of nil_B \<Rightarrow> Inl NilDereference | PtrInt_B p \<Rightarrow> Sum_B p i2 h)"

text \<open>\<^verbatim>\<open>for i := 0; i < nbOps; i++ { iConcreteP = iConcreteP.Sum(Int(10)) }\<close>: the loop
  state is the handle and the store.\<close>

definition concrete_loop_B :: "go_int \<Rightarrow> Int64 \<Rightarrow> ptr \<times> heap \<Rightarrow> panic + (ptr \<times> heap)" where
  "concrete_loop_B N k st = for_loop 0 N (\<lambda>(iConcreteP, h). Sum_B iConcreteP k h) st"

text \<open>\<^verbatim>\<open>for i := 0; i < nbOps; i++ { iInterfaceP = iInterfaceP.Sum(Int(10)) }\<close>: the
  returned \<^verbatim>\<open>*Int\<close> is converted to \<^verbatim>\<open>Summable\<close> by the assignment.\<close>

definition interface_loop_B ::
    "go_int \<Rightarrow> Int64 \<Rightarrow> Summable_B \<times> heap \<Rightarrow> panic + (Summable_B \<times> heap)" where
  "interface_loop_B N k st =
     for_loop 0 N
       (\<lambda>(iInterfaceP, h). case Summable_Sum_B iInterfaceP k h of
                              Inl e \<Rightarrow> Inl e
                            | Inr (p, h') \<Rightarrow> Inr (PtrInt_B p, h'))
       st"

section \<open>Variant C: pointer receiver, in place\<close>

text \<open>\<^verbatim>\<open>func (i *Int) Sum(i2 Int) { *i += i2 }\<close>\<close>

definition Sum_C :: "ptr \<Rightarrow> Int64 \<Rightarrow> heap \<Rightarrow> panic + heap" where
  "Sum_C i i2 h =
     (case i of
        None \<Rightarrow> Inl NilDereference
      | Some a \<Rightarrow> Inr (add_assign a i2 h))"

text \<open>\<^verbatim>\<open>type Summable interface { Sum(i Int) }\<close>\<close>

datatype Summable_C = nil_C | PtrInt_C ptr

definition Summable_Sum_C :: "Summable_C \<Rightarrow> Int64 \<Rightarrow> heap \<Rightarrow> panic + heap" where
  "Summable_Sum_C x i2 h = (case x of nil_C \<Rightarrow> Inl NilDereference | PtrInt_C p \<Rightarrow> Sum_C p i2 h)"

text \<open>\<^verbatim>\<open>for i := 0; i < nbOps; i++ { iConcrete.Sum(Int(10)) }\<close>: the handle is never
  assigned, only the store changes.\<close>

definition concrete_loop_C :: "go_int \<Rightarrow> Int64 \<Rightarrow> ptr \<Rightarrow> heap \<Rightarrow> panic + heap" where
  "concrete_loop_C N k iConcrete h = for_loop 0 N (\<lambda>h. Sum_C iConcrete k h) h"

text \<open>\<^verbatim>\<open>for i := 0; i < nbOps; i++ { iInterface.Sum(Int(10)) }\<close>\<close>

definition interface_loop_C :: "go_int \<Rightarrow> Int64 \<Rightarrow> Summable_C \<Rightarrow> heap \<Rightarrow> panic + heap" where
  "interface_loop_C N k iInterface h = for_loop 0 N (\<lambda>h. Summable_Sum_C iInterface k h) h"

section \<open>The world around the programs\<close>

text \<open>
  The packages \<^verbatim>\<open>time\<close>, \<^verbatim>\<open>fmt\<close> and \<^verbatim>\<open>github.com/pkg/profile\<close> are not code of the
  repository. What the clock shows is an input of a run: \<open>clock n\<close> is the reading that
  call number \<open>n\<close> of \<^verbatim>\<open>time.Now()\<close> returns. \<^verbatim>\<open>Time.Sub\<close> and the text that \<^verbatim>\<open>%v\<close>
  prints for a \<^verbatim>\<open>time.Duration\<close> (its \<^verbatim>\<open>String\<close> method) are parameters as well, and
  nothing is assumed of any of the three.
\<close>

record ('t, 'd) env =
  clock :: "nat \<Rightarrow> 't"
  time_Sub :: "'t \<Rightarrow> 't \<Rightarrow> 'd"
  Duration_String :: "'d \<Rightarrow> string"

datatype profiler_state = NotStarted | Running | Flushed

record world =
  stdout :: string
  now_calls :: nat
  cpu_profile :: profiler_state

text \<open>\<^verbatim>\<open>time.Now()\<close>\<close>

definition time_Now :: "('t, 'd) env \<Rightarrow> world \<Rightarrow> 't \<times> world" where
  "time_Now env w = (clock env (now_calls w), w\<lparr>now_calls := Suc (now_calls w)\<rparr>)"

text \<open>\<^verbatim>\<open>profile.Start(profile.CPUProfile)\<close> and the \<^verbatim>\<open>Stop\<close> of the handle it returns. The
  package reports through \<^verbatim>\<open>log\<close>, that is on standard error, and leaves standard output
  alone.\<close>

definition profile_Start :: "world \<Rightarrow> world" where
  "profile_Start w = w\<lparr>cpu_profile := Running\<rparr>"

definition profile_Stop :: "world \<Rightarrow> world" where
  "profile_Stop w = w\<lparr>cpu_profile := Flushed\<rparr>"

subsection \<open>The fragment of \<^verbatim>\<open>fmt.Printf\<close> that the programs use\<close>

text \<open>The operands handed to \<^verbatim>\<open>Printf\<close>: an \<^verbatim>\<open>int\<close> and a \<^verbatim>\<open>time.Duration\<close>.\<close>

datatype 'd operand = IntOp go_int | DurationOp 'd

text \<open>Decimal digits of a natural number, most significant first.\<close>

fun decimal :: "nat \<Rightarrow> string" where
  "decimal n =
     (if n < 10 then [''0123456789'' ! n]
      else decimal (n div 10) @ [''0123456789'' ! (n mod 10)])"

declare decimal.simps [simp del]

text \<open>\<^verbatim>\<open>%d\<close> of an \<^verbatim>\<open>int\<close>: the signed value in decimal.\<close>

definition format_d :: "go_int \<Rightarrow> string" where
  "format_d n =
     (if n <s 0 then CHR ''-'' # decimal (nat (- sint n)) else decimal (nat (sint n)))"

text \<open>
  The format string is copied to the output; \<^verbatim>\<open>%d\<close> consumes an \<^verbatim>\<open>int\<close> operand and
  \<^verbatim>\<open>%v\<close> a \<^verbatim>\<open>time.Duration\<close> operand. Every other verb, a verb without its operand or
  with an operand of the other kind, and operands left over are outside the fragment:
  \<open>None\<close>.
\<close>

fun Sprintf :: "('d \<Rightarrow> string) \<Rightarrow> string \<Rightarrow> 'd operand list \<Rightarrow> string option" where
  "Sprintf str [] [] = Some []"
| "Sprintf str [] (x # xs) = None"
| "Sprintf str (c # cs) ops =
     (if c = CHR ''%''
      then (case (cs, ops) of
              (v # rest, IntOp n # ops') \<Rightarrow>
                (if v = CHR ''d''
                 then map_option ((@) (format_d n)) (Sprintf str rest ops')
                 else None)
            | (v # rest, DurationOp d # ops') \<Rightarrow>
                (if v = CHR ''v''
                 then map_option ((@) (str d)) (Sprintf str rest ops')
                 else None)
            | _ \<Rightarrow> None)
      else map_option ((#) c) (Sprintf str cs ops))"

text \<open>\<^verbatim>\<open>fmt.Printf\<close>: the formatted text is appended to standard output.\<close>

definition Printf :: "('t, 'd) env \<Rightarrow> string \<Rightarrow> 'd operand list \<Rightarrow> world \<Rightarrow> world option" where
  "Printf env format ops w =
     (case Sprintf (Duration_String env) format ops of
        None \<Rightarrow> None
      | Some text \<Rightarrow> Some (w\<lparr>stdout := stdout w @ text\<rparr>))"

text \<open>How a run can end early: a panic, or a \<^verbatim>\<open>Printf\<close> call outside the fragment above.\<close>

datatype abort = Panicked panic | Unsupported_format

section \<open>The three \<^verbatim>\<open>main\<close> functions\<close>

text \<open>
  Each \<^verbatim>\<open>main\<close> is given twice: its body with the loop bound \<open>N\<close> and the increment
  \<open>k\<close> as parameters (\<open>bench\<close>), and \<^verbatim>\<open>main\<close> itself, which is the body at
  \<^verbatim>\<open>nbOps\<close> and \<^verbatim>\<open>Int(10)\<close> between \<^verbatim>\<open>profile.Start\<close> and the deferred \<^verbatim>\<open>Stop\<close>, which
  runs on every way out. A run yields its outcome, the local variables at the end or the
  reason of an early end, and the world it leaves.
\<close>

record final_A =
  iConcrete_A :: Int64
  iInterface_A :: Summable_A

definition bench_A ::
    "go_int \<Rightarrow> Int64 \<Rightarrow> ('t, 'd) env \<Rightarrow> world \<Rightarrow> (abort + final_A) \<times> world" where
  "bench_A N k env w0 =
     (let iConcrete = 0;
          (start, w1) = time_Now env w0
      in case concrete_loop_A N k iConcrete of
           Inl e \<Rightarrow> (Inl (Panicked e), w1)
         | Inr iConcrete \<Rightarrow>
             (let (now, w2) = time_Now env w1
              in case Printf env ''[concrete]  computed %d sums in %v\<newline>''
                        [IntOp N, DurationOp (time_Sub env now start)] w2 of
                   None \<Rightarrow> (Inl Unsupported_format, w2)
                 | Some w3 \<Rightarrow>
                     (let iInterface = Int_A 0;
                          (start, w4) = time_Now env w3
                      in case interface_loop_A N k iInterface of
                           Inl e \<Rightarrow> (Inl (Panicked e), w4)
                         | Inr iInterface \<Rightarrow>
                             (let (now, w5) = time_Now env w4
                              in case Printf env ''[interface] computed %d sums in %v\<newline>''
                                        [IntOp N, DurationOp (time_Sub env now start)] w5 of
                                   None \<Rightarrow> (Inl Unsupported_format, w5)
                                 | Some w6 \<Rightarrow>
                                     (Inr \<lparr>iConcrete_A = iConcrete,
                                           iInterface_A = iInterface\<rparr>, w6)))))"

definition main_A :: "('t, 'd) env \<Rightarrow> world \<Rightarrow> (abort + final_A) \<times> world" where
  "main_A env w =
     (let (outcome, w') = bench_A nbOps 10 env (profile_Start w)
      in (outcome, profile_Stop w'))"

record final_B =
  zero_B :: addr
  iConcreteP_B :: ptr
  iInterfaceP_B :: Summable_B
  heap_B :: heap

definition bench_B ::
    "go_int \<Rightarrow> Int64 \<Rightarrow> ('t, 'd) env \<Rightarrow> world \<Rightarrow> heap \<Rightarrow> (abort + final_B) \<times> world" where
  "bench_B N k env w0 h0 =
     (let (zero, h1) = new_Int h0;
          iConcreteP = Some zero;
          (start, w1) = time_Now env w0
      in case concrete_loop_B N k (iConcreteP, h1) of
           Inl e \<Rightarrow> (Inl (Panicked e), w1)
         | Inr (iConcreteP, h2) \<Rightarrow>
             (let (now, w2) = time_Now env w1
              in case Printf env ''[concrete]  computed %d sums in %v\<newline>''
                        [IntOp N, DurationOp (time_Sub env now start)] w2 of
                   None \<Rightarrow> (Inl Unsupported_format, w2)
                 | Some w3 \<Rightarrow>
                     (let iInterfaceP = PtrInt_B (Some zero);
                          (start, w4) = time_Now env w3
                      in case interface_loop_B N k (iInterfaceP, h2) of
                           Inl e \<Rightarrow> (Inl (Panicked e), w4)
                         | Inr (iInterfaceP, h3) \<Rightarrow>
                             (let (now, w5) = time_Now env w4
                              in case Printf env ''[interface] computed %d sums in %v\<newline>''
                                        [IntOp N, DurationOp (time_Sub env now start)] w5 of
                                   None \<Rightarrow> (Inl Unsupported_format, w5)
                                 | Some w6 \<Rightarrow>
                                     (Inr \<lparr>zero_B = zero,
                                           iConcreteP_B = iConcreteP,
                                           iInterfaceP_B = iInterfaceP,
                                           heap_B = h3\<rparr>, w6)))))"

definition main_B :: "('t, 'd) env \<Rightarrow> world \<Rightarrow> heap \<Rightarrow> (abort + final_B) \<times> world" where
  "main_B env w h =
     (let (outcome, w') = bench_B nbOps 10 env (profile_Start w) h
      in (outcome, profile_Stop w'))"

record final_C =
  zero_C :: addr
  iConcrete_C :: ptr
  iInterface_C :: Summable_C
  heap_C :: heap

definition bench_C ::
    "go_int \<Rightarrow> Int64 \<Rightarrow> ('t, 'd) env \<Rightarrow> world \<Rightarrow> heap \<Rightarrow> (abort + final_C) \<times> world" where
  "bench_C N k env w0 h0 =
     (let (zero, h1) = new_Int h0;
          iConcrete = Some zero;
          (start, w1) = time_Now env w0
      in case concrete_loop_C N k iConcrete h1 of
           Inl e \<Rightarrow> (Inl (Panicked e), w1)
         | Inr h2 \<Rightarrow>
             (let (now, w2) = time_Now env w1
              in case Printf env ''[concrete]  computed %d sums in %v\<newline>''
                        [IntOp N, DurationOp (time_Sub env now start)] w2 of
                   None \<Rightarrow> (Inl Unsupported_format, w2)
                 | Some w3 \<Rightarrow>
                     (let iInterface = PtrInt_C (Some zero);
                          (start, w4) = time_Now env w3
                      in case interface_loop_C N k iInterface h2 of
                           Inl e \<Rightarrow> (Inl (Panicked e), w4)
                         | Inr h3 \<Rightarrow>
                             (let (now, w5) = time_Now env w4
                              in case Printf env ''[interface] computed %d sums in %v\<newline>''
                                        [IntOp N, DurationOp (time_Sub env now start)] w5 of
                                   None \<Rightarrow> (Inl Unsupported_format, w5)
                                 | Some w6 \<Rightarrow>
                                     (Inr \<lparr>zero_C = zero,
                                           iConcrete_C = iConcrete,
                                           iInterface_C = iInterface,
                                           heap_C = h3\<rparr>, w6)))))"

definition main_C :: "('t, 'd) env \<Rightarrow> world \<Rightarrow> heap \<Rightarrow> (abort + final_C) \<times> world" where
  "main_C env w h =
     (let (outcome, w') = bench_C nbOps 10 env (profile_Start w) h
      in (outcome, profile_Stop w'))"

section \<open>Runs to look at\<close>

text \<open>The state a process starts in: nothing printed, the clock never read, no profile,
  and no cell of type \<^verbatim>\<open>Int\<close> in the store.\<close>

definition start_world :: world where
  "start_world = \<lparr>stdout = [], now_calls = 0, cpu_profile = NotStarted\<rparr>"

definition empty_heap :: heap where
  "empty_heap = \<lparr>cells = (\<lambda>a. 0), next_free = 0\<rparr>"

text \<open>One possible surrounding: the clock advances by 41966579ns, the first measurement
  of the repository's write-up, from one reading to the next; durations are differences
  in nanoseconds and are printed as such.\<close>

definition sample_env :: "(nat, nat) env" where
  "sample_env =
     \<lparr>clock = (\<lambda>n. n * 41966579),
      time_Sub = (\<lambda>t u. t - u),
      Duration_String = (\<lambda>d. decimal d @ ''ns'')\<rparr>"

text \<open>The lines of a text: the pieces between line feeds, a trailing piece without a line
  feed counting as a line.\<close>

fun lines_of :: "string \<Rightarrow> string list" where
  "lines_of [] = []"
| "lines_of (c # cs) =
     (if c = CHR ''\<newline>'' then [] # lines_of cs
      else (case lines_of cs of [] \<Rightarrow> [[c]] | l # ls \<Rightarrow> (c # l) # ls))"

section \<open>Facts about the counting loop\<close>

lemma for_loop_done: "\<not> i <s n \<Longrightarrow> for_loop i n body s = Inr s"
  by (subst for_loop.simps) simp

lemma for_loop_step:
  "i <s n \<Longrightarrow> body s = Inr s' \<Longrightarrow> for_loop i n body s = for_loop (i + 1) n body s'"
  by (subst for_loop.simps) simp

lemma for_loop_panic: "i <s n \<Longrightarrow> body s = Inl e \<Longrightarrow> for_loop i n body s = Inl e"
  by (subst for_loop.simps) simp

text \<open>Two bodies that agree up to a change of representation \<open>g\<close> of the state give loops
  that agree up to \<open>g\<close>, panics included.\<close>

lemma for_loop_map_sum:
  assumes "\<And>s. body2 (g s) = map_sum (\<lambda>e. e) g (body1 s)"
  shows "for_loop i n body2 (g s) = map_sum (\<lambda>e. e) g (for_loop i n body1 s)"
  using assms
proof (induction i n body1 s rule: for_loop.induct)
  case (1 i n b s)
  note sim = "1.prems"
  show ?case
  proof (cases "i <s n")
    case False
    then show ?thesis by (simp add: for_loop_done)
  next
    case True
    show ?thesis
    proof (cases "b s")
      case (Inl e)
      with sim [of s] have "body2 (g s) = Inl e" by simp
      with True have "for_loop i n body2 (g s) = Inl e"
        by (rule for_loop_panic)
      moreover from True Inl have "for_loop i n b s = Inl e"
        by (rule for_loop_panic)
      ultimately show ?thesis by simp
    next
      case (Inr s')
      with sim [of s] have b2: "body2 (g s) = Inr (g s')" by simp
      from True Inr sim
      have "for_loop (i + 1) n body2 (g s') = map_sum (\<lambda>e. e) g (for_loop (i + 1) n b s')"
        by (rule "1.IH")
      moreover from True Inr have "for_loop i n b s = for_loop (i + 1) n b s'"
        by (rule for_loop_step)
      moreover from True b2 have "for_loop i n body2 (g s) = for_loop (i + 1) n body2 (g s')"
        by (rule for_loop_step)
      ultimately show ?thesis by simp
    qed
  qed
qed

text \<open>Below the bound the index does not wrap when it is incremented.\<close>

lemma sint_succ_below:
  fixes i n :: go_int
  assumes "i <s n"
  shows "sint (i + 1) = sint i + 1"
proof -
  from assms have less: "sint i < sint n"
    by (simp add: word_sless_alt)
  have "sint n < 2 ^ 63" and "- (2 ^ 63) \<le> sint i"
    using sint_lt [of n] sint_ge [of i] by simp_all
  with less have "signed_take_bit 63 (sint i + 1) = sint i + 1"
    by (intro signed_take_bit_int_eq_self) simp_all
  then show ?thesis
    by (simp add: sint_word_add)
qed

text \<open>
  A body that cannot panic on the states of an invariant \<open>I\<close> is applied exactly
  \<open>sint n - sint i\<close> times (no time when that is negative).
\<close>

lemma for_loop_iterate:
  assumes "\<And>s. I s \<Longrightarrow> body s = Inr (f s) \<and> I (f s)" and "I s"
  shows "for_loop i n body s = Inr ((f ^^ nat (sint n - sint i)) s)"
  using assms
proof (induction i n body s rule: for_loop.induct)
  case (1 i n b s)
  note step = "1.prems"(1) and inv = "1.prems"(2)
  show ?case
  proof (cases "i <s n")
    case False
    then have "nat (sint n - sint i) = 0"
      by (simp add: word_sless_alt)
    with False show ?thesis
      by (simp add: for_loop_done)
  next
    case True
    from step [OF inv] have b: "b s = Inr (f s)" and inv': "I (f s)"
      by simp_all
    from True have "sint i < sint n"
      by (simp add: word_sless_alt)
    then have cnt: "nat (sint n - sint i) = Suc (nat (sint n - sint (i + 1)))"
      using sint_succ_below [OF True] by simp
    from True b step inv'
    have "for_loop (i + 1) n b (f s) = Inr ((f ^^ nat (sint n - sint (i + 1))) (f s))"
      by (rule "1.IH")
    moreover from True b have "for_loop i n b s = for_loop (i + 1) n b (f s)"
      by (rule for_loop_step)
    ultimately show ?thesis
      by (simp add: cnt funpow_swap1)
  qed
qed

subsection \<open>Repeated addition\<close>

lemma funpow_Sum_A: "((\<lambda>c. Sum_A c k) ^^ m) c = c + of_nat m * k"
  by (induction m) (simp_all add: Sum_A_def algebra_simps)

lemma add_assign_twice: "add_assign a k (add_assign a j h) = add_assign a (j + k) h"
  by (simp add: add_assign_def add.assoc)

lemma funpow_add_assign: "(add_assign a k ^^ m) h = add_assign a (of_nat m * k) h"
proof (induction m)
  case 0
  show ?case by (simp add: add_assign_def)
next
  case (Suc m)
  have "(add_assign a k ^^ Suc m) h = add_assign a k ((add_assign a k ^^ m) h)"
    by simp
  also have "\<dots> = add_assign a (of_nat m * k + k) h"
    by (simp only: Suc.IH add_assign_twice)
  also have "of_nat m * k + k = of_nat (Suc m) * k"
    by (simp add: distrib_right)
  finally show ?case .
qed

subsection \<open>The six loops as iterations\<close>

lemma concrete_loop_A_funpow:
  "concrete_loop_A N k c = Inr (((\<lambda>c. Sum_A c k) ^^ nat (sint N)) c)"
proof -
  have "concrete_loop_A N k c = Inr (((\<lambda>c. Sum_A c k) ^^ nat (sint N - sint (0::go_int))) c)"
    unfolding concrete_loop_A_def
    by (rule for_loop_iterate [where I = "\<lambda>_. True"]) simp_all
  then show ?thesis by simp
qed

lemma concrete_loop_B_funpow:
  "concrete_loop_B N k (Some a, h) = Inr (Some a, (add_assign a k ^^ nat (sint N)) h)"
proof -
  let ?f = "\<lambda>(p :: ptr, h). (p, add_assign a k h)"
  have "concrete_loop_B N k (Some a, h) = Inr ((?f ^^ nat (sint N - sint (0::go_int))) (Some a, h))"
    unfolding concrete_loop_B_def
    by (rule for_loop_iterate [where I = "\<lambda>(p, h). p = Some a"]) (auto simp: Sum_B_def)
  moreover have "(?f ^^ m) (Some a, h) = (Some a, (add_assign a k ^^ m) h)" for m
    by (induction m) simp_all
  ultimately show ?thesis by simp
qed

lemma concrete_loop_C_funpow:
  "concrete_loop_C N k (Some a) h = Inr ((add_assign a k ^^ nat (sint N)) h)"
proof -
  have "concrete_loop_C N k (Some a) h
          = Inr ((add_assign a k ^^ nat (sint N - sint (0::go_int))) h)"
    unfolding concrete_loop_C_def
    by (rule for_loop_iterate [where I = "\<lambda>_. True"]) (simp_all add: Sum_C_def)
  then show ?thesis by simp
qed

subsection \<open>The polymorphic loops simulate the direct ones\<close>

lemma interface_loop_A_sim:
  "interface_loop_A N k (Int_A c) = map_sum (\<lambda>e. e) Int_A (concrete_loop_A N k c)"
  unfolding interface_loop_A_def concrete_loop_A_def
  by (rule for_loop_map_sum) (simp add: Summable_Sum_A_def)

lemma interface_loop_B_sim:
  "interface_loop_B N k (PtrInt_B p, h)
     = map_sum (\<lambda>e. e) (\<lambda>(p', h'). (PtrInt_B p', h')) (concrete_loop_B N k (p, h))"
proof -
  have "interface_loop_B N k ((\<lambda>(p', h'). (PtrInt_B p', h')) (p, h))
          = map_sum (\<lambda>e. e) (\<lambda>(p', h'). (PtrInt_B p', h')) (concrete_loop_B N k (p, h))"
    unfolding interface_loop_B_def concrete_loop_B_def
    by (rule for_loop_map_sum)
      (auto simp: Summable_Sum_B_def Sum_B_def split: option.splits)
  then show ?thesis by simp
qed

lemma interface_loop_C_sim:
  "interface_loop_C N k (PtrInt_C p) h = concrete_loop_C N k p h"
  by (simp add: interface_loop_C_def concrete_loop_C_def Summable_Sum_C_def)

subsection \<open>Closed forms\<close>

text \<open>The bound \<open>N\<close> read as a number of rounds is \<open>nat (sint N)\<close>: none for a negative bound.\<close>

lemma rounds_nbOps: "nat (sint nbOps) = 100000000"
  by (simp add: nbOps_def)

lemma of_nat_rounds:
  fixes N :: go_int
  assumes "0 \<le>s N"
  shows "of_nat (nat (sint N)) = N"
proof -
  from assms have "0 \<le> sint N"
    by (simp add: word_sle_eq)
  then have "(of_nat (nat (sint N)) :: go_int) = of_int (sint N)"
    by simp
  then show ?thesis by simp
qed

lemma concrete_loop_A_closed:
  "concrete_loop_A N k c = Inr (c + of_nat (nat (sint N)) * k)"
  by (simp add: concrete_loop_A_funpow funpow_Sum_A)

lemma interface_loop_A_closed:
  "interface_loop_A N k (Int_A c) = Inr (Int_A (c + of_nat (nat (sint N)) * k))"
  by (simp add: interface_loop_A_sim concrete_loop_A_closed)

lemma concrete_loop_B_closed:
  "concrete_loop_B N k (Some a, h) = Inr (Some a, add_assign a (of_nat (nat (sint N)) * k) h)"
  by (simp add: concrete_loop_B_funpow funpow_add_assign)

lemma interface_loop_B_closed:
  "interface_loop_B N k (PtrInt_B (Some a), h)
     = Inr (PtrInt_B (Some a), add_assign a (of_nat (nat (sint N)) * k) h)"
  by (simp add: interface_loop_B_sim concrete_loop_B_closed)

lemma concrete_loop_C_closed:
  "concrete_loop_C N k (Some a) h = Inr (add_assign a (of_nat (nat (sint N)) * k) h)"
  by (simp add: concrete_loop_C_funpow funpow_add_assign)

lemma interface_loop_C_closed:
  "interface_loop_C N k (PtrInt_C (Some a)) h = Inr (add_assign a (of_nat (nat (sint N)) * k) h)"
  by (simp add: interface_loop_C_sim concrete_loop_C_closed)

subsection \<open>What a run computes and prints\<close>

lemma Sprintf_concrete:
  "Sprintf str ''[concrete]  computed %d sums in %v\<newline>'' [IntOp n, DurationOp d]
     = Some (''[concrete]  computed '' @ format_d n @ '' sums in '' @ str d @ ''\<newline>'')"
  by simp

lemma Sprintf_interface:
  "Sprintf str ''[interface] computed %d sums in %v\<newline>'' [IntOp n, DurationOp d]
     = Some (''[interface] computed '' @ format_d n @ '' sums in '' @ str d @ ''\<newline>'')"
  by simp

lemma format_d_nbOps: "format_d nbOps = ''100000000''"
  by (simp add: nbOps_def format_d_def decimal.simps word_sless_alt)

lemma bench_A_run:
  "bench_A N k env w =
     (Inr \<lparr>iConcrete_A = of_nat (nat (sint N)) * k,
           iInterface_A = Int_A (of_nat (nat (sint N)) * k)\<rparr>,
      w\<lparr>stdout := stdout w
            @ ''[concrete]  computed '' @ format_d N @ '' sums in ''
            @ Duration_String env (time_Sub env (clock env (now_calls w + 1)) (clock env (now_calls w)))
            @ ''\<newline>''
            @ ''[interface] computed '' @ format_d N @ '' sums in ''
            @ Duration_String env (time_Sub env (clock env (now_calls w + 3)) (clock env (now_calls w + 2)))
            @ ''\<newline>'',
         now_calls := now_calls w + 4\<rparr>)"
  by (simp add: bench_A_def time_Now_def Printf_def Sprintf_concrete Sprintf_interface
      concrete_loop_A_closed interface_loop_A_closed eval_nat_numeral Let_def del: Sprintf.simps)

lemma new_Int_eq:
  "new_Int h = (next_free h, \<lparr>cells = (cells h)(next_free h := 0), next_free = Suc (next_free h)\<rparr>)"
  by (simp add: new_Int_def)

lemma add_assign_fresh:
  "add_assign a v \<lparr>cells = c, next_free = n\<rparr> = \<lparr>cells = c(a := c a + v), next_free = n\<rparr>"
  by (simp add: add_assign_def)

lemma bench_B_run:
  "bench_B N k env w h =
     (Inr \<lparr>zero_B = next_free h,
           iConcreteP_B = Some (next_free h),
           iInterfaceP_B = PtrInt_B (Some (next_free h)),
           heap_B = \<lparr>cells = (cells h)(next_free h := of_nat (nat (sint N)) * k + of_nat (nat (sint N)) * k),
                     next_free = Suc (next_free h)\<rparr>\<rparr>,
      w\<lparr>stdout := stdout w
            @ ''[concrete]  computed '' @ format_d N @ '' sums in ''
            @ Duration_String env (time_Sub env (clock env (now_calls w + 1)) (clock env (now_calls w)))
            @ ''\<newline>''
            @ ''[interface] computed '' @ format_d N @ '' sums in ''
            @ Duration_String env (time_Sub env (clock env (now_calls w + 3)) (clock env (now_calls w + 2)))
            @ ''\<newline>'',
         now_calls := now_calls w + 4\<rparr>)"
  by (simp add: bench_B_def time_Now_def Printf_def Sprintf_concrete Sprintf_interface
      concrete_loop_B_closed interface_loop_B_closed new_Int_eq add_assign_fresh
      eval_nat_numeral Let_def del: Sprintf.simps)

lemma bench_C_run:
  "bench_C N k env w h =
     (Inr \<lparr>zero_C = next_free h,
           iConcrete_C = Some (next_free h),
           iInterface_C = PtrInt_C (Some (next_free h)),
           heap_C = \<lparr>cells = (cells h)(next_free h := of_nat (nat (sint N)) * k + of_nat (nat (sint N)) * k),
                     next_free = Suc (next_free h)\<rparr>\<rparr>,
      w\<lparr>stdout := stdout w
            @ ''[concrete]  computed '' @ format_d N @ '' sums in ''
            @ Duration_String env (time_Sub env (clock env (now_calls w + 1)) (clock env (now_calls w)))
            @ ''\<newline>''
            @ ''[interface] computed '' @ format_d N @ '' sums in ''
            @ Duration_String env (time_Sub env (clock env (now_calls w + 3)) (clock env (now_calls w + 2)))
            @ ''\<newline>'',
         now_calls := now_calls w + 4\<rparr>)"
  by (simp add: bench_C_def time_Now_def Printf_def Sprintf_concrete Sprintf_interface
      concrete_loop_C_closed interface_loop_C_closed new_Int_eq add_assign_fresh
      eval_nat_numeral Let_def del: Sprintf.simps)

lemma main_A_run:
  "main_A env w =
     (Inr \<lparr>iConcrete_A = 1000000000, iInterface_A = Int_A 1000000000\<rparr>,
      w\<lparr>stdout := stdout w
            @ ''[concrete]  computed 100000000 sums in ''
            @ Duration_String env (time_Sub env (clock env (now_calls w + 1)) (clock env (now_calls w)))
            @ ''\<newline>''
            @ ''[interface] computed 100000000 sums in ''
            @ Duration_String env (time_Sub env (clock env (now_calls w + 3)) (clock env (now_calls w + 2)))
            @ ''\<newline>'',
         now_calls := now_calls w + 4,
         cpu_profile := Flushed\<rparr>)"
  by (simp add: main_A_def bench_A_run profile_Start_def profile_Stop_def rounds_nbOps
      format_d_nbOps)

lemma main_B_run:
  "main_B env w h =
     (Inr \<lparr>zero_B = next_free h,
           iConcreteP_B = Some (next_free h),
           iInterfaceP_B = PtrInt_B (Some (next_free h)),
           heap_B = \<lparr>cells = (cells h)(next_free h := 2000000000),
                     next_free = Suc (next_free h)\<rparr>\<rparr>,
      w\<lparr>stdout := stdout w
            @ ''[concrete]  computed 100000000 sums in ''
            @ Duration_String env (time_Sub env (clock env (now_calls w + 1)) (clock env (now_calls w)))
            @ ''\<newline>''
            @ ''[interface] computed 100000000 sums in ''
            @ Duration_String env (time_Sub env (clock env (now_calls w + 3)) (clock env (now_calls w + 2)))
            @ ''\<newline>'',
         now_calls := now_calls w + 4,
         cpu_profile := Flushed\<rparr>)"
  by (simp add: main_B_def bench_B_run profile_Start_def profile_Stop_def rounds_nbOps
      format_d_nbOps)

lemma main_C_run:
  "main_C env w h =
     (Inr \<lparr>zero_C = next_free h,
           iConcrete_C = Some (next_free h),
           iInterface_C = PtrInt_C (Some (next_free h)),
           heap_C = \<lparr>cells = (cells h)(next_free h := 2000000000),
                     next_free = Suc (next_free h)\<rparr>\<rparr>,
      w\<lparr>stdout := stdout w
            @ ''[concrete]  computed 100000000 sums in ''
            @ Duration_String env (time_Sub env (clock env (now_calls w + 1)) (clock env (now_calls w)))
            @ ''\<newline>''
            @ ''[interface] computed 100000000 sums in ''
            @ Duration_String env (time_Sub env (clock env (now_calls w + 3)) (clock env (now_calls w + 2)))
            @ ''\<newline>'',
         now_calls := now_calls w + 4,
         cpu_profile := Flushed\<rparr>)"
  by (simp add: main_C_def bench_C_run profile_Start_def profile_Stop_def rounds_nbOps
      format_d_nbOps)

subsection \<open>Lines of the output\<close>

lemma lines_of_line:
  "CHR ''\<newline>'' \<notin> set l \<Longrightarrow> lines_of (l @ CHR ''\<newline>'' # rest) = l # lines_of rest"
  by (induction l) auto

lemma lines_of_two:
  assumes "CHR ''\<newline>'' \<notin> set l1" and "CHR ''\<newline>'' \<notin> set l2"
  shows "lines_of (l1 @ CHR ''\<newline>'' # l2 @ CHR ''\<newline>'' # []) = [l1, l2]"
proof -
  from assms(2) have "lines_of (l2 @ CHR ''\<newline>'' # []) = l2 # lines_of []"
    by (rule lines_of_line)
  moreover from assms(1)
  have "lines_of (l1 @ CHR ''\<newline>'' # (l2 @ CHR ''\<newline>'' # []))
          = l1 # lines_of (l2 @ CHR ''\<newline>'' # [])"
    by (rule lines_of_line)
  ultimately show ?thesis by simp
qed

lemma decimal_digits: "set (decimal n) \<subseteq> set ''0123456789''"
proof (induction n rule: decimal.induct)
  case (1 n)
  have digit: "''0123456789'' ! m \<in> set ''0123456789''" if "m < 10" for m
    using that by (intro nth_mem) simp
  show ?case
  proof (cases "n < 10")
    case True
    then show ?thesis
      using digit [of n] by (subst decimal.simps) simp
  next
    case False
    have "n mod 10 < 10" by simp
    from digit [OF this] "1.IH" [OF False] False show ?thesis
      by (subst decimal.simps) simp
  qed
qed

lemma sample_env_no_newline: "CHR ''\<newline>'' \<notin> set (Duration_String sample_env d)"
  using decimal_digits [of d] by (auto simp: sample_env_def)

subsection \<open>Exact arithmetic below the bound\<close>

lemma sint_ten_times:
  fixes j :: go_int
  assumes "0 \<le>s j" and "j \<le>s nbOps"
  shows "sint (j * 10) = sint j * 10"
    and "sint (1000000000 + j * 10) = 1000000000 + sint j * 10"
    and "0 \<le> sint j" and "sint j \<le> 100000000"
proof -
  from assms show lo: "0 \<le> sint j" and hi: "sint j \<le> 100000000"
    by (simp_all add: word_sle_eq nbOps_def)
  then have "signed_take_bit 63 (sint j * 10) = sint j * 10"
    by (intro signed_take_bit_int_eq_self) simp_all
  then show prod: "sint (j * 10) = sint j * 10"
    by (simp add: sint_word_mult)
  from lo hi have "signed_take_bit 63 (1000000000 + sint j * 10) = 1000000000 + sint j * 10"
    by (intro signed_take_bit_int_eq_self) simp_all
  with prod show "sint (1000000000 + j * 10) = 1000000000 + sint j * 10"
    by (simp add: sint_word_add)
qed

lemma sint_add_exact:
  fixes x y :: Int64
  assumes "- (2 ^ 63) \<le> sint x + sint y" and "sint x + sint y < 2 ^ 63"
  shows "sint (x + y) = sint x + sint y"
proof -
  from assms have "signed_take_bit 63 (sint x + sint y) = sint x + sint y"
    by (intro signed_take_bit_int_eq_self) simp_all
  then show ?thesis
    by (simp add: sint_word_add)
qed

section \<open>The claims\<close>

text \<open>
  C1. In each variant the polymorphic loop does what the direct loop does: started on the
  same counter (variant A: the same value, boxed; variants B and C: the same pointer into
  the same store, boxed), run with the same bound \<open>N\<close> and the same increment \<open>k\<close>,
  both end with the same counter, and where one panics so does the other. The results
  differ only in the static type of the handle: \<open>Int_A\<close> and \<open>PtrInt_B\<close> are the
  conversions to the interface type.
\<close>

theorem polymorphic_loop_refines_direct_loop:
  "interface_loop_A N k (Int_A c) = map_sum (\<lambda>e. e) Int_A (concrete_loop_A N k c)
   \<and> interface_loop_B N k (PtrInt_B p, h)
       = map_sum (\<lambda>e. e) (\<lambda>(p', h'). (PtrInt_B p', h')) (concrete_loop_B N k (p, h))
   \<and> interface_loop_C N k (PtrInt_C p) h = concrete_loop_C N k p h"
  by (simp only: interface_loop_A_sim interface_loop_B_sim interface_loop_C_sim)

text \<open>
  C2. With the bound \<^verbatim>\<open>nbOps\<close> and the increment \<^verbatim>\<open>Int(10)\<close>, each of the six timed loops
  calls \<^verbatim>\<open>Sum\<close> exactly \<open>10^8\<close> times (the loop is the \<open>100000000\<close>-fold iterate of one
  call) and cannot panic on a non-nil handle. The counter it works on, the value in
  variant A and the cell behind the pointer in variants B and C, ends as its value before
  the loop plus \<open>1000000000\<close>, the sum being that of \<^verbatim>\<open>int64\<close>; every other cell of the
  store is as before. A loop started on a zero counter ends on \<open>1000000000\<close>. For the
  two values that a loop of the programs starts on, \<open>0\<close> and \<open>1000000000\<close>, that sum
  is the sum of the integers.
\<close>

theorem each_loop_adds_ten_nbOps_times:
  "concrete_loop_A nbOps 10 c = Inr (((\<lambda>c. Sum_A c 10) ^^ 100000000) c)
   \<and> concrete_loop_A nbOps 10 c = Inr (c + 1000000000)
   \<and> interface_loop_A nbOps 10 (Int_A c) = Inr (Int_A (c + 1000000000))
   \<and> concrete_loop_B nbOps 10 (Some a, h) = Inr (Some a, (add_assign a 10 ^^ 100000000) h)
   \<and> concrete_loop_B nbOps 10 (Some a, h) = Inr (Some a, add_assign a 1000000000 h)
   \<and> interface_loop_B nbOps 10 (PtrInt_B (Some a), h)
        = Inr (PtrInt_B (Some a), add_assign a 1000000000 h)
   \<and> concrete_loop_C nbOps 10 (Some a) h = Inr ((add_assign a 10 ^^ 100000000) h)
   \<and> concrete_loop_C nbOps 10 (Some a) h = Inr (add_assign a 1000000000 h)
   \<and> interface_loop_C nbOps 10 (PtrInt_C (Some a)) h = Inr (add_assign a 1000000000 h)
   \<and> cells (add_assign a 1000000000 h) b
        = (if b = a then cells h a + 1000000000 else cells h b)
   \<and> concrete_loop_A nbOps 10 0 = Inr 1000000000
   \<and> sint (0 + 1000000000 :: Int64) = 0 + 1000000000
   \<and> sint (1000000000 + 1000000000 :: Int64) = 1000000000 + 1000000000"
proof (intro conjI)
  show "concrete_loop_A nbOps 10 c = Inr (((\<lambda>c. Sum_A c 10) ^^ 100000000) c)"
    by (simp only: concrete_loop_A_funpow rounds_nbOps)
  show "concrete_loop_B nbOps 10 (Some a, h) = Inr (Some a, (add_assign a 10 ^^ 100000000) h)"
    by (simp only: concrete_loop_B_funpow rounds_nbOps)
  show "concrete_loop_C nbOps 10 (Some a) h = Inr ((add_assign a 10 ^^ 100000000) h)"
    by (simp only: concrete_loop_C_funpow rounds_nbOps)
  show "concrete_loop_A nbOps 10 c = Inr (c + 1000000000)"
    by (simp add: concrete_loop_A_closed rounds_nbOps)
  show "interface_loop_A nbOps 10 (Int_A c) = Inr (Int_A (c + 1000000000))"
    by (simp add: interface_loop_A_closed rounds_nbOps)
  show "concrete_loop_B nbOps 10 (Some a, h) = Inr (Some a, add_assign a 1000000000 h)"
    by (simp add: concrete_loop_B_closed rounds_nbOps)
  show "interface_loop_B nbOps 10 (PtrInt_B (Some a), h)
        = Inr (PtrInt_B (Some a), add_assign a 1000000000 h)"
    by (simp add: interface_loop_B_closed rounds_nbOps)
  show "concrete_loop_C nbOps 10 (Some a) h = Inr (add_assign a 1000000000 h)"
    by (simp add: concrete_loop_C_closed rounds_nbOps)
  show "interface_loop_C nbOps 10 (PtrInt_C (Some a)) h = Inr (add_assign a 1000000000 h)"
    by (simp add: interface_loop_C_closed rounds_nbOps)
  show "cells (add_assign a 1000000000 h) b
        = (if b = a then cells h a + 1000000000 else cells h b)"
    by (simp add: add_assign_def)
  show "concrete_loop_A nbOps 10 0 = Inr 1000000000"
    by (simp add: concrete_loop_A_closed rounds_nbOps)
  show "sint (0 + 1000000000 :: Int64) = 0 + 1000000000"
    by simp
  show "sint (1000000000 + 1000000000 :: Int64) = 1000000000 + 1000000000"
    by simp
qed

text \<open>
  C3. A counter that starts from zero is to end on \<open>N * k\<close> on either path, so that in
  each variant as written the value seen through the concrete handle after the first
  loop and the value seen through the interface handle after the second loop are both
  \<open>10^9\<close>. Variant A does that: a run from the start of a process ends with
  \<^verbatim>\<open>iConcrete\<close> and \<^verbatim>\<open>iInterface\<close> on \<open>1000000000\<close>. The pointer variants do not. Their
  direct loop takes the fresh cell \<^verbatim>\<open>zero\<close> to \<open>1000000000\<close>, but the interface handle is
  made from \<^verbatim>\<open>&zero\<close> again, where variant A has a new \<^verbatim>\<open>Int(0)\<close>, so its loop does not
  start from zero: the runs of \<^verbatim>\<open>main\<close> of B and of C end with the interface handle on
  the cell \<^verbatim>\<open>zero\<close>, and that cell holds \<open>2000000000\<close>.
\<close>

theorem interface_handle_of_pointer_variants_ends_on_two_billion:
  "fst (main_A sample_env start_world)
     = Inr \<lparr>iConcrete_A = 1000000000, iInterface_A = Int_A 1000000000\<rparr>
   \<and> fst (new_Int empty_heap) = 0
   \<and> cells (snd (new_Int empty_heap)) 0 = 0
   \<and> concrete_loop_B nbOps 10 (Some 0, snd (new_Int empty_heap))
       = Inr (Some 0, add_assign 0 1000000000 (snd (new_Int empty_heap)))
   \<and> concrete_loop_C nbOps 10 (Some 0) (snd (new_Int empty_heap))
       = Inr (add_assign 0 1000000000 (snd (new_Int empty_heap)))
   \<and> cells (add_assign 0 1000000000 (snd (new_Int empty_heap))) 0 = 1000000000
   \<and> fst (main_B sample_env start_world empty_heap)
       = Inr \<lparr>zero_B = 0, iConcreteP_B = Some 0, iInterfaceP_B = PtrInt_B (Some 0),
              heap_B = add_assign 0 2000000000 (snd (new_Int empty_heap))\<rparr>
   \<and> fst (main_C sample_env start_world empty_heap)
       = Inr \<lparr>zero_C = 0, iConcrete_C = Some 0, iInterface_C = PtrInt_C (Some 0),
              heap_C = add_assign 0 2000000000 (snd (new_Int empty_heap))\<rparr>
   \<and> cells (add_assign 0 2000000000 (snd (new_Int empty_heap))) 0 = 2000000000
   \<and> cells (add_assign 0 2000000000 (snd (new_Int empty_heap))) 0 \<noteq> 1000000000"
  by (simp add: main_A_run main_B_run main_C_run concrete_loop_B_closed
      concrete_loop_C_closed rounds_nbOps new_Int_eq add_assign_fresh empty_heap_def)

text \<open>
  C4. For the same \<open>(N, k)\<close> the final counter value at the end of the process is to be
  the same in variants A, B and C. At the parameters of the programs it is not: from
  the start of a process, \<^verbatim>\<open>main\<close> of variant A ends with each of its counters on
  \<open>1000000000\<close>, while \<^verbatim>\<open>main\<close> of variant B and \<^verbatim>\<open>main\<close> of variant C end with their
  counter, the cell \<^verbatim>\<open>zero\<close> that both handles are made from, on \<open>2000000000\<close>.
\<close>

theorem final_counter_of_A_is_half_that_of_B_and_C:
  "fst (main_A sample_env start_world)
     = Inr \<lparr>iConcrete_A = 1000000000, iInterface_A = Int_A 1000000000\<rparr>
   \<and> fst (main_B sample_env start_world empty_heap)
       = Inr \<lparr>zero_B = 0, iConcreteP_B = Some 0, iInterfaceP_B = PtrInt_B (Some 0),
              heap_B = \<lparr>cells = (cells empty_heap)(0 := 2000000000), next_free = 1\<rparr>\<rparr>
   \<and> fst (main_C sample_env start_world empty_heap)
       = Inr \<lparr>zero_C = 0, iConcrete_C = Some 0, iInterface_C = PtrInt_C (Some 0),
              heap_C = \<lparr>cells = (cells empty_heap)(0 := 2000000000), next_free = 1\<rparr>\<rparr>
   \<and> ((cells empty_heap)(0 := 2000000000)) 0 = (2000000000 :: Int64)
   \<and> (2000000000 :: Int64) \<noteq> 1000000000"
  by (simp add: main_A_run main_B_run main_C_run empty_heap_def)

text \<open>
  C5. In the pointer variants B and C both handles are made from the address of the one
  variable \<^verbatim>\<open>zero\<close>, so the loops are not independent. The direct loop takes the fresh
  cell from \<open>0\<close> to \<open>1000000000\<close>; the polymorphic loop starts on the store the direct
  loop has left, that is on \<open>1000000000\<close>, and takes the same cell to
  \<open>2000000000 = 2 * 10^8 * 10\<close>; that is the store \<^verbatim>\<open>main\<close> ends with, with both
  handles on \<^verbatim>\<open>zero\<close>.
\<close>

theorem pointer_variants_share_zero:
  "(let zero = fst (new_Int h);
        h1 = snd (new_Int h);
        h2 = h1\<lparr>cells := (cells h1)(zero := 1000000000)\<rparr>;
        h3 = h1\<lparr>cells := (cells h1)(zero := 2000000000)\<rparr>
    in cells h1 zero = 0
     \<and> concrete_loop_B nbOps 10 (Some zero, h1) = Inr (Some zero, h2)
     \<and> interface_loop_B nbOps 10 (PtrInt_B (Some zero), h2) = Inr (PtrInt_B (Some zero), h3)
     \<and> fst (main_B env w h)
          = Inr \<lparr>zero_B = zero, iConcreteP_B = Some zero,
                 iInterfaceP_B = PtrInt_B (Some zero), heap_B = h3\<rparr>
     \<and> concrete_loop_C nbOps 10 (Some zero) h1 = Inr h2
     \<and> interface_loop_C nbOps 10 (PtrInt_C (Some zero)) h2 = Inr h3
     \<and> fst (main_C env w h)
          = Inr \<lparr>zero_C = zero, iConcrete_C = Some zero,
                 iInterface_C = PtrInt_C (Some zero), heap_C = h3\<rparr>
     \<and> cells h2 zero = 1000000000
     \<and> cells h3 zero = 2000000000
     \<and> sint (2000000000 :: Int64) = 2 * 100000000 * 10)"
  by (simp add: Let_def new_Int_eq concrete_loop_B_closed interface_loop_B_closed
      concrete_loop_C_closed interface_loop_C_closed rounds_nbOps add_assign_fresh
      main_B_run main_C_run)

text \<open>
  C6. At the fixed parameters no addition in \<^verbatim>\<open>Sum\<close> overflows. Let \<open>j\<close> be the number
  of rounds done, \<open>0 \<le> j < 10^8\<close>, so that call number \<open>j + 1\<close> of \<^verbatim>\<open>Sum\<close> is about
  to happen. The counter then is \<open>j * 10\<close> in every loop that starts on zero (both loops
  of variant A, the direct loops of B and C) and \<open>1000000000 + j * 10\<close> in the
  polymorphic loops of B and C, which start on the shared cell; read as signed integers
  these are the exact totals and not negative; the exact sum of the counter and
  \<open>10\<close> is at most \<open>1000000000\<close>, respectively \<open>2000000000\<close>, which is below
  \<open>2^63\<close>; and the 64-bit sum that \<^verbatim>\<open>Sum\<close> computes, \<^verbatim>\<open>i + i2\<close> or \<^verbatim>\<open>*i += i2\<close>, is that
  exact sum. With \<open>j\<close> up to \<open>10^8 - 1\<close> this covers every intermediate and every final
  value of a run.
\<close>

theorem no_overflow_at_fixed_parameters:
  fixes j :: go_int
  assumes "0 \<le>s j" and "j <s nbOps"
  shows "concrete_loop_A j 10 0 = Inr (j * 10)
       \<and> interface_loop_A j 10 (Int_A 0) = Inr (Int_A (j * 10))
       \<and> concrete_loop_B j 10 (Some a, h\<lparr>cells := (cells h)(a := 0)\<rparr>)
           = Inr (Some a, h\<lparr>cells := (cells h)(a := j * 10)\<rparr>)
       \<and> interface_loop_B j 10 (PtrInt_B (Some a), h\<lparr>cells := (cells h)(a := 1000000000)\<rparr>)
           = Inr (PtrInt_B (Some a), h\<lparr>cells := (cells h)(a := 1000000000 + j * 10)\<rparr>)
       \<and> concrete_loop_C j 10 (Some a) (h\<lparr>cells := (cells h)(a := 0)\<rparr>)
           = Inr (h\<lparr>cells := (cells h)(a := j * 10)\<rparr>)
       \<and> interface_loop_C j 10 (PtrInt_C (Some a)) (h\<lparr>cells := (cells h)(a := 1000000000)\<rparr>)
           = Inr (h\<lparr>cells := (cells h)(a := 1000000000 + j * 10)\<rparr>)
       \<and> sint (j * 10) = sint j * 10
       \<and> sint (1000000000 + j * 10) = 1000000000 + sint j * 10
       \<and> 0 \<le> sint j * 10
       \<and> sint (j * 10) + sint (10 :: Int64) \<le> 1000000000
       \<and> sint (1000000000 + j * 10) + sint (10 :: Int64) \<le> 2000000000
       \<and> (2000000000 :: int) < 2 ^ 63
       \<and> sint (Sum_A (j * 10) 10) = sint (j * 10) + sint (10 :: Int64)
       \<and> sint (cells (add_assign a 10 (h\<lparr>cells := (cells h)(a := j * 10)\<rparr>)) a)
           = sint (j * 10) + sint (10 :: Int64)
       \<and> sint (cells (add_assign a 10 (h\<lparr>cells := (cells h)(a := 1000000000 + j * 10)\<rparr>)) a)
           = sint (1000000000 + j * 10) + sint (10 :: Int64)"
proof -
  from assms(2) have le: "j \<le>s nbOps" and less: "sint j < 100000000"
    by (simp_all add: word_sle_eq word_sless_alt nbOps_def)
  note vals = sint_ten_times [OF assms(1) le]
  from assms(1) have rounds: "of_nat (nat (sint j)) = j"
    by (rule of_nat_rounds)
  have ten: "sint (10 :: Int64) = 10"
    by simp
  have next1: "sint (j * 10 + 10) = sint (j * 10) + sint (10 :: Int64)"
    using vals(3) less by (intro sint_add_exact) (simp_all add: vals(1))
  have next2: "sint ((1000000000 + j * 10) + 10) = sint (1000000000 + j * 10) + sint (10 :: Int64)"
    using vals(3) less by (intro sint_add_exact) (simp_all add: vals(2))
  have loops:
    "concrete_loop_A j 10 0 = Inr (j * 10)"
    "interface_loop_A j 10 (Int_A 0) = Inr (Int_A (j * 10))"
    "concrete_loop_B j 10 (Some a, h\<lparr>cells := (cells h)(a := 0)\<rparr>)
           = Inr (Some a, h\<lparr>cells := (cells h)(a := j * 10)\<rparr>)"
    "interface_loop_B j 10 (PtrInt_B (Some a), h\<lparr>cells := (cells h)(a := 1000000000)\<rparr>)
           = Inr (PtrInt_B (Some a), h\<lparr>cells := (cells h)(a := 1000000000 + j * 10)\<rparr>)"
    "concrete_loop_C j 10 (Some a) (h\<lparr>cells := (cells h)(a := 0)\<rparr>)
           = Inr (h\<lparr>cells := (cells h)(a := j * 10)\<rparr>)"
    "interface_loop_C j 10 (PtrInt_C (Some a)) (h\<lparr>cells := (cells h)(a := 1000000000)\<rparr>)
           = Inr (h\<lparr>cells := (cells h)(a := 1000000000 + j * 10)\<rparr>)"
    by (simp_all add: concrete_loop_A_closed interface_loop_A_closed concrete_loop_B_closed
        interface_loop_B_closed concrete_loop_C_closed interface_loop_C_closed rounds
        add_assign_def)
  have sums:
    "sint (Sum_A (j * 10) 10) = sint (j * 10) + sint (10 :: Int64)"
    "sint (cells (add_assign a 10 (h\<lparr>cells := (cells h)(a := j * 10)\<rparr>)) a)
           = sint (j * 10) + sint (10 :: Int64)"
    "sint (cells (add_assign a 10 (h\<lparr>cells := (cells h)(a := 1000000000 + j * 10)\<rparr>)) a)
           = sint (1000000000 + j * 10) + sint (10 :: Int64)"
    using next1 next2 by (simp_all add: Sum_A_def add_assign_def del: add_numeral_left)
  have bounds:
    "0 \<le> sint j * 10"
    "sint (j * 10) + sint (10 :: Int64) \<le> 1000000000"
    "sint (1000000000 + j * 10) + sint (10 :: Int64) \<le> 2000000000"
    "(2000000000 :: int) < 2 ^ 63"
    using vals(3) less by (simp_all add: vals(1,2))
  from loops sums bounds vals(1,2) show ?thesis
    by (simp only: simp_thms)
qed

theorem no_overflow_at_fixed_parameters_witness:
  "(0 :: go_int) \<le>s 99999999 \<and> (99999999 :: go_int) <s nbOps
   \<and> concrete_loop_A 99999999 10 0 = Inr 999999990
   \<and> sint (Sum_A 999999990 10) = 1000000000
   \<and> interface_loop_B 99999999 10
         (PtrInt_B (Some 0), empty_heap\<lparr>cells := (cells empty_heap)(0 := 1000000000)\<rparr>)
       = Inr (PtrInt_B (Some 0), empty_heap\<lparr>cells := (cells empty_heap)(0 := 1999999990)\<rparr>)
   \<and> sint (cells (add_assign 0 10 (empty_heap\<lparr>cells := (cells empty_heap)(0 := 1999999990)\<rparr>)) 0)
       = 2000000000"
proof -
  have range: "(0 :: go_int) \<le>s 99999999" "(99999999 :: go_int) <s nbOps"
    by (simp_all add: word_sle_eq word_sless_alt nbOps_def)
  from no_overflow_at_fixed_parameters [OF range, of 0 empty_heap] range show ?thesis
    by simp
qed

text \<open>
  C7. A run of each of the three programs, started with nothing on standard output,
  leaves exactly two lines there, in this order: the line labelled \<^verbatim>\<open>[concrete]\<close> for the
  direct loop, then the line labelled \<^verbatim>\<open>[interface]\<close> for the polymorphic loop. Each
  line holds the iteration count \<open>100000000\<close> and the text of a duration: the time
  between the two clock readings around its loop. That the duration prints without a
  line feed is the one thing asked of the \<^verbatim>\<open>time\<close> package. Appended to whatever
  was printed before, the output is the same text in all three programs.
\<close>

theorem main_prints_two_lines:
  assumes "\<forall>d. CHR ''\<newline>'' \<notin> set (Duration_String env d)"
  shows "(let concrete_line = ''[concrete]  computed 100000000 sums in ''
                @ Duration_String env (time_Sub env (clock env 1) (clock env 0));
              interface_line = ''[interface] computed 100000000 sums in ''
                @ Duration_String env (time_Sub env (clock env 3) (clock env 2))
          in lines_of (stdout (snd (main_A env start_world))) = [concrete_line, interface_line]
           \<and> lines_of (stdout (snd (main_B env start_world h))) = [concrete_line, interface_line]
           \<and> lines_of (stdout (snd (main_C env start_world h))) = [concrete_line, interface_line])
         \<and> stdout (snd (main_A env w))
             = stdout w
               @ ''[concrete]  computed 100000000 sums in ''
               @ Duration_String env (time_Sub env (clock env (now_calls w + 1)) (clock env (now_calls w)))
               @ ''\<newline>''
               @ ''[interface] computed 100000000 sums in ''
               @ Duration_String env (time_Sub env (clock env (now_calls w + 3)) (clock env (now_calls w + 2)))
               @ ''\<newline>''
         \<and> stdout (snd (main_B env w h)) = stdout (snd (main_A env w))
         \<and> stdout (snd (main_C env w h)) = stdout (snd (main_A env w))"
proof -
  let ?l1 = "''[concrete]  computed 100000000 sums in ''
                @ Duration_String env (time_Sub env (clock env 1) (clock env 0))"
  let ?l2 = "''[interface] computed 100000000 sums in ''
                @ Duration_String env (time_Sub env (clock env 3) (clock env 2))"
  have same_B: "stdout (snd (main_B env w h)) = stdout (snd (main_A env w))" for w
    by (simp add: main_A_run main_B_run)
  have same_C: "stdout (snd (main_C env w h)) = stdout (snd (main_A env w))" for w
    by (simp add: main_A_run main_C_run)
  have out: "stdout (snd (main_A env start_world))
               = ?l1 @ CHR ''\<newline>'' # ?l2 @ CHR ''\<newline>'' # []"
    by (simp add: main_A_run start_world_def eval_nat_numeral)
  from assms have "CHR ''\<newline>'' \<notin> set ?l1" and "CHR ''\<newline>'' \<notin> set ?l2"
    by simp_all
  then have "lines_of (?l1 @ CHR ''\<newline>'' # ?l2 @ CHR ''\<newline>'' # []) = [?l1, ?l2]"
    by (rule lines_of_two)
  with out have A: "lines_of (stdout (snd (main_A env start_world))) = [?l1, ?l2]"
    by (simp only:)
  have general: "stdout (snd (main_A env w))
             = stdout w
               @ ''[concrete]  computed 100000000 sums in ''
               @ Duration_String env (time_Sub env (clock env (now_calls w + 1)) (clock env (now_calls w)))
               @ ''\<newline>''
               @ ''[interface] computed 100000000 sums in ''
               @ Duration_String env (time_Sub env (clock env (now_calls w + 3)) (clock env (now_calls w + 2)))
               @ ''\<newline>''"
    by (simp add: main_A_run)
  from A general show ?thesis
    by (simp only: Let_def same_B same_C simp_thms)
qed

theorem main_prints_two_lines_witness:
  "(\<forall>d. CHR ''\<newline>'' \<notin> set (Duration_String sample_env d))
   \<and> lines_of (stdout (snd (main_A sample_env start_world)))
       = [''[concrete]  computed 100000000 sums in 41966579ns'',
          ''[interface] computed 100000000 sums in 41966579ns'']
   \<and> lines_of (stdout (snd (main_B sample_env start_world empty_heap)))
       = [''[concrete]  computed 100000000 sums in 41966579ns'',
          ''[interface] computed 100000000 sums in 41966579ns'']
   \<and> lines_of (stdout (snd (main_C sample_env start_world empty_heap)))
       = [''[concrete]  computed 100000000 sums in 41966579ns'',
          ''[interface] computed 100000000 sums in 41966579ns'']"
proof -
  have free: "\<forall>d. CHR ''\<newline>'' \<notin> set (Duration_String sample_env d)"
    by (simp add: sample_env_no_newline)
  have d1: "Duration_String sample_env (time_Sub sample_env (clock sample_env 1) (clock sample_env 0))
              = ''41966579ns''"
    by (simp add: sample_env_def decimal.simps)
  have d2: "Duration_String sample_env (time_Sub sample_env (clock sample_env 3) (clock sample_env 2))
              = ''41966579ns''"
    by (simp add: sample_env_def decimal.simps)
  note run = main_prints_two_lines [OF free, of empty_heap start_world, THEN conjunct1,
      unfolded Let_def d1 d2]
  from run free show ?thesis
    by (simp only: append.simps simp_thms)
qed

text \<open>
  C8. Zero iterations: with the bound \<open>N = 0\<close> the loop runs no body at all, whatever the
  body is, so the direct and the polymorphic loop of every variant make no call of
  \<^verbatim>\<open>Sum\<close> and hand back the counter, the handle and the store they were started with.
\<close>

theorem zero_iterations_leave_counter:
  "for_loop 0 0 body s = Inr s
   \<and> concrete_loop_A 0 k c = Inr c
   \<and> interface_loop_A 0 k x = Inr x
   \<and> concrete_loop_B 0 k (p, h) = Inr (p, h)
   \<and> interface_loop_B 0 k (y, h) = Inr (y, h)
   \<and> concrete_loop_C 0 k p h = Inr h
   \<and> interface_loop_C 0 k z h = Inr h"
  by (simp add: for_loop_done concrete_loop_A_def interface_loop_A_def concrete_loop_B_def
      interface_loop_B_def concrete_loop_C_def interface_loop_C_def)

text \<open>
  C10. In variant B \<^verbatim>\<open>Sum\<close> on a non-nil pointer returns that very pointer (on nil it
  panics), and changes the store in the cell of the pointer only. So the assignment
  \<^verbatim>\<open>iConcreteP = iConcreteP.Sum(Int(10))\<close> never moves the handle: started on
  \<^verbatim>\<open>&zero\<close>, the direct loop stopped after any number \<open>j\<close> of rounds has the handle
  on \<^verbatim>\<open>&zero\<close> and a store that differs from the initial one in the cell \<^verbatim>\<open>zero\<close>
  alone, and so has the polymorphic loop that follows it. \<^verbatim>\<open>main\<close> ends with both
  handles on \<^verbatim>\<open>&zero\<close> and with all increments of both loops in that cell.
\<close>

theorem Sum_B_returns_receiver:
  "Sum_B (Some a) i2 h = Inr (Some a, add_assign a i2 h)
   \<and> Sum_B None i2 h = Inl NilDereference
   \<and> cells (add_assign a i2 h) b = (if b = a then cells h a + i2 else cells h b)
   \<and> next_free (add_assign a i2 h) = next_free h
   \<and> concrete_loop_B j 10 (Some (fst (new_Int h)), snd (new_Int h))
       = Inr (Some (fst (new_Int h)),
              add_assign (fst (new_Int h)) (of_nat (nat (sint j)) * 10) (snd (new_Int h)))
   \<and> interface_loop_B j 10
         (PtrInt_B (Some (fst (new_Int h))), add_assign (fst (new_Int h)) 1000000000 (snd (new_Int h)))
       = Inr (PtrInt_B (Some (fst (new_Int h))),
              add_assign (fst (new_Int h)) (1000000000 + of_nat (nat (sint j)) * 10) (snd (new_Int h)))
   \<and> fst (main_B env w h)
       = Inr \<lparr>zero_B = fst (new_Int h),
              iConcreteP_B = Some (fst (new_Int h)),
              iInterfaceP_B = PtrInt_B (Some (fst (new_Int h))),
              heap_B = add_assign (fst (new_Int h)) 2000000000 (snd (new_Int h))\<rparr>"
  by (simp add: Sum_B_def concrete_loop_B_closed interface_loop_B_closed add_assign_twice
      main_B_run new_Int_eq add_assign_fresh)
    (simp add: add_assign_def)

end
